theory Spec2Isabelle
  imports Complex_Main "HOL-Library.Word"
begin

section \<open>Tool filtering (tools/filter.ts)\<close>

text \<open>
  The server configuration parsed from the environment: three independent
  permission flags (interface \<open>McpServerConfig\<close> in types/env.ts).
\<close>

record McpServerConfig =
  allowUserPii :: bool
  allowWrites :: bool
  allowSends :: bool

text \<open>Tools that don't expose user PII.\<close>

definition NON_PII_TOOLS :: "string set" where
  "NON_PII_TOOLS = set
  [''abort_campaign'',
   ''activate_triggered_campaign'',
   ''archive_campaigns'',
   ''bulk_delete_catalog_items'',
   ''cancel_campaign'',
   ''create_campaign'',
   ''create_catalog'',
   ''create_list'',
   ''create_snippet'',
   ''deactivate_triggered_campaign'',
   ''delete_catalog'',
   ''delete_catalog_item'',
   ''delete_list'',
   ''delete_snippet'',
   ''delete_templates'',
   ''get_campaign'',
   ''get_campaign_metrics'',
   ''get_campaigns'',
   ''get_catalog_field_mappings'',
   ''get_catalog_item'',
   ''get_catalog_items'',
   ''get_catalogs'',
   ''get_channels'',
   ''get_child_campaigns'',
   ''get_email_template'',
   ''get_experiment_metrics'',
   ''get_inapp_template'',
   ''get_journeys'',
   ''get_list_size'',
   ''get_lists'',
   ''get_message_types'',
   ''get_push_template'',
   ''get_sms_template'',
   ''get_snippet'',
   ''get_snippets'',
   ''get_template_by_client_id'',
   ''get_templates'',
   ''get_user_fields'',
   ''get_webhooks'',
   ''partial_update_catalog_item'',
   ''preview_email_template'',
   ''preview_inapp_template'',
   ''replace_catalog_item'',
   ''schedule_campaign'',
   ''send_campaign'',
   ''trigger_campaign'',
   ''update_catalog_field_mappings'',
   ''update_catalog_items'',
   ''update_email_template'',
   ''update_inapp_template'',
   ''update_push_template'',
   ''update_sms_template'',
   ''update_snippet'',
   ''update_webhook'',
   ''upsert_email_template'',
   ''upsert_inapp_template'',
   ''upsert_push_template'',
   ''upsert_sms_template'']"

text \<open>Tools that only read data (no modifications).\<close>

definition READ_ONLY_TOOLS :: "string set" where
  "READ_ONLY_TOOLS = set
  [''get_campaign'',
   ''get_campaign_metrics'',
   ''get_campaigns'',
   ''get_catalog_field_mappings'',
   ''get_catalog_item'',
   ''get_catalog_items'',
   ''get_catalogs'',
   ''get_channels'',
   ''get_child_campaigns'',
   ''get_email_template'',
   ''get_embedded_messages'',
   ''get_experiment_metrics'',
   ''get_export_files'',
   ''get_export_jobs'',
   ''get_in_app_messages'',
   ''get_inapp_template'',
   ''get_journeys'',
   ''get_list_preview_users'',
   ''get_list_size'',
   ''get_list_users'',
   ''get_lists'',
   ''get_message_types'',
   ''get_push_template'',
   ''get_sent_messages'',
   ''get_sms_template'',
   ''get_snippet'',
   ''get_snippets'',
   ''get_template_by_client_id'',
   ''get_templates'',
   ''get_user_by_email'',
   ''get_user_by_user_id'',
   ''get_user_events_by_email'',
   ''get_user_events_by_user_id'',
   ''get_user_fields'',
   ''get_webhooks'',
   ''preview_email_template'',
   ''preview_inapp_template'']"

text \<open>Tools that can directly or indirectly trigger sending messages.\<close>

definition SEND_TOOLS :: "string set" where
  "SEND_TOOLS = set
  [''send_campaign'',
   ''trigger_campaign'',
   ''schedule_campaign'',
   ''create_campaign'',
   ''activate_triggered_campaign'',
   ''trigger_journey'',
   ''track_event'',
   ''track_bulk_events'',
   ''send_email'',
   ''send_sms'',
   ''send_whatsapp'',
   ''send_web_push'',
   ''send_push'',
   ''send_in_app'',
   ''send_email_template_proof'',
   ''send_sms_template_proof'',
   ''send_push_template_proof'',
   ''send_inapp_template_proof'']"

text \<open>
  \<open>isToolAllowed\<close>: three guards in the order PII, write, send; each returns
  \<open>false\<close> early, and the function returns \<open>true\<close> when none fires.
\<close>

definition isToolAllowed :: "string \<Rightarrow> McpServerConfig \<Rightarrow> bool" where
  "isToolAllowed toolName config =
     (if \<not> allowUserPii config \<and> toolName \<notin> NON_PII_TOOLS then False
      else if \<not> allowWrites config \<and> toolName \<notin> READ_ONLY_TOOLS then False
      else if \<not> allowSends config \<and> toolName \<in> SEND_TOOLS then False
      else True)"

definition pii_reason :: string where
  "pii_reason = ''This tool exposes user PII. Enable with ITERABLE_USER_PII=true''"

definition write_reason :: string where
  "write_reason = ''This tool modifies data. Enable with ITERABLE_ENABLE_WRITES=true''"

definition send_reason :: string where
  "send_reason = ''This tool can send messages. Enable with ITERABLE_ENABLE_SENDS=true''"

text \<open>
  \<open>getBlockedReason\<close>: the same three guards in the same order, each returning
  its message; \<open>null\<close> (here \<open>None\<close>) when none fires.
\<close>

definition getBlockedReason :: "string \<Rightarrow> McpServerConfig \<Rightarrow> string option" where
  "getBlockedReason toolName config =
     (if \<not> allowUserPii config \<and> toolName \<notin> NON_PII_TOOLS then Some pii_reason
      else if \<not> allowWrites config \<and> toolName \<notin> READ_ONLY_TOOLS then Some write_reason
      else if \<not> allowSends config \<and> toolName \<in> SEND_TOOLS then Some send_reason
      else None)"

section \<open>Worker environment and entry point (types/env.ts, index.ts)\<close>

text \<open>
  The environment bindings of the worker (interface \<open>Env\<close>). The two optional
  bindings are options; the Durable Object namespace is opaque to this code
  and is left as a type parameter.
\<close>

record 'ns Env =
  ITERABLE_API_KEY :: "string option"
  ITERABLE_API_BASE_URL :: "string option"
  ITERABLE_USER_PII :: string
  ITERABLE_ENABLE_WRITES :: string
  ITERABLE_ENABLE_SENDS :: string
  MCP_OBJECT :: 'ns

text \<open>\<open>parseConfig\<close>: a flag is on exactly when its variable is the string \<open>true\<close>.\<close>

definition parseConfig :: "'ns Env \<Rightarrow> McpServerConfig" where
  "parseConfig env =
     \<lparr>allowUserPii = (ITERABLE_USER_PII env = ''true''),
      allowWrites = (ITERABLE_ENABLE_WRITES env = ''true''),
      allowSends = (ITERABLE_ENABLE_SENDS env = ''true'')\<rparr>"

text \<open>
  What the entry point reads from the incoming request: the path of its URL,
  the URL's query pairs (a \<open>URLSearchParams\<close>, in order, already decoded) and
  its header list. Parsing the URL text is the platform's work and is not
  part of the model.
\<close>

record Request =
  pathname :: string
  searchParams :: "(string \<times> string) list"
  req_headers :: "(string \<times> string) list"

text \<open>\<open>URLSearchParams.get\<close>: the value of the first pair with that name, or \<open>null\<close>.\<close>

definition searchParams_get :: "(string \<times> string) list \<Rightarrow> string \<Rightarrow> string option" where
  "searchParams_get ps name = map_of ps name"

definition ascii_lower :: "char \<Rightarrow> char" where
  "ascii_lower c =
     (let n = (of_char c :: nat) in if 65 \<le> n \<and> n \<le> 90 then char_of (n + 32) else c)"

fun join :: "string \<Rightarrow> string list \<Rightarrow> string" where
  "join sep [] = []"
| "join sep [x] = x"
| "join sep (x # y # ys) = x @ sep @ join sep (y # ys)"

text \<open>
  \<open>Headers.get\<close>: header names match without regard to ASCII case; the values of
  all headers with that name are combined with a comma and a space; \<open>null\<close> when
  there is none.
\<close>

definition headers_get :: "(string \<times> string) list \<Rightarrow> string \<Rightarrow> string option" where
  "headers_get hs name =
     (let vs = map snd (filter (\<lambda>h. map ascii_lower (fst h) = map ascii_lower name) hs)
      in if vs = [] then None else Some (join '', '' vs))"

text \<open>
  Truthiness of a value that is a string, \<open>null\<close> or \<open>undefined\<close>, and the
  operator \<open>||\<close> on such values: the left operand when it is truthy, otherwise
  the right one.
\<close>

definition truthy :: "string option \<Rightarrow> bool" where
  "truthy v = (case v of None \<Rightarrow> False | Some s \<Rightarrow> s \<noteq> [])"

definition js_or :: "string option \<Rightarrow> string option \<Rightarrow> string option" where
  "js_or a b = (if truthy a then a else b)"

text \<open>
  The binding \<open>apiKey\<close> of the entry point: query parameter, then header,
  then environment variable.
\<close>

definition apiKey_of :: "Request \<Rightarrow> 'ns Env \<Rightarrow> string option" where
  "apiKey_of request env =
     js_or (js_or (searchParams_get (searchParams request) ''api_key'')
                  (headers_get (req_headers request) ''X-Iterable-Api-Key''))
           (ITERABLE_API_KEY env)"

text \<open>
  A response built by the entry point itself: its status, its headers and
  its body, the text that \<open>JSON.stringify\<close> gives for the object literal of
  the source.
\<close>

record WorkerResponse =
  wr_status :: nat
  wr_headers :: "(string \<times> string) list"
  wr_body :: string

definition api_key_required_body :: string where
  \<open>api_key_required_body =
     ''{"error":"API key required",'' @
     ''"message":"Provide your Iterable API key via X-Iterable-Api-Key header or ?api_key query parameter",'' @
     ''"example":"https://iterable-mcp.workers.dev/mcp?api_key=YOUR_KEY"}''\<close>

definition info_body :: string where
  \<open>info_body =
     ''{"name":"Iterable MCP Server","version":"1.0.0",'' @
     ''"endpoints":{"mcp":"/mcp?api_key=YOUR_KEY (recommended)",'' @
     ''"sse":"/sse?api_key=YOUR_KEY (legacy)"},'' @
     ''"authentication":{"methods":["Query parameter (api_key)","Header (X-Iterable-Api-Key)"],'' @
     ''"example":"curl https://iterable-mcp.workers.dev/mcp?api_key=YOUR_ITERABLE_API_KEY"},'' @
     ''"documentation":"https://github.com/iterable/mcp-server-cloudflare"}''\<close>

text \<open>
  The outcome of the entry point: it answers by itself, or hands the request
  and the environment carrying the resolved key to the SSE transport or to the
  streamable HTTP transport of the agent, whose tools make the upstream calls.
\<close>

datatype 'ns WorkerOutcome =
  Respond WorkerResponse
| ServeSSE "'ns Env"
| ServeMcp "'ns Env"

definition worker_fetch :: "Request \<Rightarrow> 'ns Env \<Rightarrow> 'ns WorkerOutcome" where
  "worker_fetch request env =
     (let apiKey = apiKey_of request env in
      if \<not> truthy apiKey \<and>
         (pathname request = ''/mcp'' \<or> pathname request = ''/sse''
          \<or> pathname request = ''/sse/message'')
      then Respond \<lparr>wr_status = 401,
                     wr_headers = [(''Content-Type'', ''application/json'')],
                     wr_body = api_key_required_body\<rparr>
      else
        (let envWithKey = env\<lparr>ITERABLE_API_KEY := apiKey\<rparr> in
         if pathname request = ''/sse'' \<or> pathname request = ''/sse/message''
         then ServeSSE envWithKey
         else if pathname request = ''/mcp'' then ServeMcp envWithKey
         else Respond \<lparr>wr_status = 200,
                        wr_headers = [(''Content-Type'', ''application/json''),
                                      (''Access-Control-Allow-Origin'', ''*'')],
                        wr_body = info_body\<rparr>))"

section \<open>Platform functions used by the client\<close>

text \<open>
  The client relies on functions of the JavaScript platform: \<open>JSON.parse\<close>,
  \<open>String\<close>, \<open>parseInt\<close>, \<open>String.prototype.trim\<close> and \<open>split\<close>, and
  \<open>URLSearchParams\<close>. They are modelled here after their standards (ECMA-262,
  ECMA-404, the URL standard), as far as the client uses them.

  A JavaScript string is modelled by the bytes of its UTF-8 encoding, a lone
  surrogate being written as U+FFFD, as the platform does when it encodes a
  string. A JavaScript number is a double. A number that the client receives
  as an argument is only ever printed, so it is given either as an integer
  that a double holds exactly, or by the text that \<open>String\<close> prints for it.
  A number read from a response body keeps its exact decimal value; where
  the result of the platform would depend on rounding, or on the printing of
  a double that is not such an integer, the model says so with a value of its
  own instead of computing one.
\<close>

subsection \<open>Characters and decimal digits\<close>

definition is_digit :: "char \<Rightarrow> bool" where
  "is_digit c = (48 \<le> (of_char c :: nat) \<and> (of_char c :: nat) \<le> 57)"

definition digit_val :: "char \<Rightarrow> int" where
  "digit_val c = of_char c - 48"

definition int_of_digits :: "string \<Rightarrow> int" where
  "int_of_digits ds = foldl (\<lambda>a c. 10 * a + digit_val c) 0 ds"

definition hex_val :: "char \<Rightarrow> nat option" where
  "hex_val c =
     (let n = (of_char c :: nat) in
      if 48 \<le> n \<and> n \<le> 57 then Some (n - 48)
      else if 65 \<le> n \<and> n \<le> 70 then Some (n - 55)
      else if 97 \<le> n \<and> n \<le> 102 then Some (n - 87)
      else None)"

text \<open>The UTF-8 encoding of a code point.\<close>

definition utf8_encode :: "nat \<Rightarrow> string" where
  "utf8_encode cp =
     (if cp < 0x80 then [char_of cp]
      else if cp < 0x800 then [char_of (0xC0 + cp div 64), char_of (0x80 + cp mod 64)]
      else if cp < 0x10000 then
        [char_of (0xE0 + cp div 4096), char_of (0x80 + (cp div 64) mod 64),
         char_of (0x80 + cp mod 64)]
      else
        [char_of (0xF0 + cp div 262144), char_of (0x80 + (cp div 4096) mod 64),
         char_of (0x80 + (cp div 64) mod 64), char_of (0x80 + cp mod 64)])"

subsection \<open>JSON values and \<open>JSON.parse\<close>\<close>

text \<open>
  The values \<open>JSON.parse\<close> can return. \<open>JNumber m e\<close> is the number
  \<open>m * 10^e\<close>. An object is the list of its members in insertion order.
\<close>

datatype json =
  JNull
| JBool bool
| JNumber int int
| JString string
| JArray "json list"
| JObject "(string \<times> json) list"

datatype token =
  T_lbrace | T_rbrace | T_lbracket | T_rbracket | T_colon | T_comma
| T_scalar json

text \<open>
  A number token: an optional minus sign, an integer part without a leading
  zero (unless it is the single digit 0), an optional fraction and an optional
  exponent. The result is the value and the rest of the input.
\<close>

definition lex_exponent :: "string \<Rightarrow> (int \<times> string) option" where
  "lex_exponent cs =
     (case cs of
        [] \<Rightarrow> Some (0, cs)
      | c # r \<Rightarrow>
          if c = CHR ''e'' \<or> c = CHR ''E'' then
            (let neg = (case r of [] \<Rightarrow> False | s # _ \<Rightarrow> s = CHR ''-'');
                 r' = (case r of [] \<Rightarrow> r
                       | s # t \<Rightarrow> if s = CHR ''-'' \<or> s = CHR ''+'' then t else r);
                 ds = takeWhile is_digit r'
             in if ds = [] then None
                else Some ((if neg then - int_of_digits ds else int_of_digits ds),
                           dropWhile is_digit r'))
          else Some (0, cs))"

definition lex_fraction :: "string \<Rightarrow> (string \<times> string) option" where
  "lex_fraction cs =
     (case cs of
        [] \<Rightarrow> Some ([], cs)
      | c # r \<Rightarrow>
          if c = CHR ''.'' then
            (let ds = takeWhile is_digit r
             in if ds = [] then None else Some (ds, dropWhile is_digit r))
          else Some ([], cs))"

definition lex_number :: "string \<Rightarrow> (json \<times> string) option" where
  "lex_number cs =
     (let neg = (case cs of [] \<Rightarrow> False | s # _ \<Rightarrow> s = CHR ''-'');
          cs1 = (if neg then tl cs else cs);
          ip = takeWhile is_digit cs1
      in if ip = [] \<or> (length ip > 1 \<and> hd ip = CHR ''0'') then None
         else
           (case lex_fraction (dropWhile is_digit cs1) of
              None \<Rightarrow> None
            | Some (fp, cs2) \<Rightarrow>
                (case lex_exponent cs2 of
                   None \<Rightarrow> None
                 | Some (ex, cs3) \<Rightarrow>
                     (let m = int_of_digits (ip @ fp)
                      in Some (JNumber (if neg then - m else m) (ex - int (length fp)),
                               cs3)))))"

text \<open>
  The four hexadecimal digits of a \<open>\u\<close> escape, as a UTF-16 code unit.
\<close>

definition read_hex4 :: "string \<Rightarrow> nat option" where
  "read_hex4 cs =
     (case cs of
        a # b # c # d # _ \<Rightarrow>
          (case (hex_val a, hex_val b, hex_val c, hex_val d) of
             (Some w, Some x, Some y, Some z) \<Rightarrow> Some (((w * 16 + x) * 16 + y) * 16 + z)
           | _ \<Rightarrow> None)
      | _ \<Rightarrow> None)"

text \<open>A low surrogate written as a \<open>\u\<close> escape at the head of the input.\<close>

definition read_low_surrogate :: "string \<Rightarrow> nat option" where
  "read_low_surrogate cs =
     (case cs of
        b # u # r \<Rightarrow>
          if b = CHR 0x5C \<and> u = CHR ''u'' then
            (case read_hex4 r of
               Some lo \<Rightarrow> if 0xDC00 \<le> lo \<and> lo < 0xE000 then Some lo else None
             | None \<Rightarrow> None)
          else None
      | _ \<Rightarrow> None)"

definition simple_escape :: "char \<Rightarrow> char option" where
  "simple_escape e =
     (if e = CHR 0x22 then Some (CHR 0x22)
      else if e = CHR 0x5C then Some (CHR 0x5C)
      else if e = CHR ''/'' then Some (CHR ''/'')
      else if e = CHR ''b'' then Some (CHR 0x08)
      else if e = CHR ''f'' then Some (CHR 0x0C)
      else if e = CHR ''n'' then Some (CHR 0x0A)
      else if e = CHR ''r'' then Some (CHR 0x0D)
      else if e = CHR ''t'' then Some (CHR 0x09)
      else None)"

definition prepend :: "string \<Rightarrow> (string \<times> string) option \<Rightarrow> (string \<times> string) option" where
  "prepend s r = (case r of None \<Rightarrow> None | Some (t, rest) \<Rightarrow> Some (s @ t, rest))"

text \<open>
  The contents of a string token, read after its opening quote up to the
  closing quote: the decoded text and the rest of the input. A control
  character, an unknown escape and a missing closing quote are errors.
\<close>

fun lex_string :: "string \<Rightarrow> (string \<times> string) option" where
  "lex_string [] = None"
| "lex_string (c # cs) =
     (if c = CHR 0x22 then Some ([], cs)
      else if c = CHR 0x5C then
        (case cs of
           [] \<Rightarrow> None
         | e # cs' \<Rightarrow>
             if e = CHR ''u'' then
               (case read_hex4 cs' of
                  None \<Rightarrow> None
                | Some cu \<Rightarrow>
                    if 0xD800 \<le> cu \<and> cu < 0xDC00 then
                      (case read_low_surrogate (drop 4 cs') of
                         Some lo \<Rightarrow>
                           prepend (utf8_encode (0x10000 + (cu - 0xD800) * 1024 + (lo - 0xDC00)))
                             (lex_string (drop 10 cs'))
                       | None \<Rightarrow> prepend (utf8_encode 0xFFFD) (lex_string (drop 4 cs')))
                    else if 0xDC00 \<le> cu \<and> cu < 0xE000 then
                      prepend (utf8_encode 0xFFFD) (lex_string (drop 4 cs'))
                    else prepend (utf8_encode cu) (lex_string (drop 4 cs')))
             else
               (case simple_escape e of
                  None \<Rightarrow> None
                | Some ch \<Rightarrow> prepend [ch] (lex_string cs')))
      else if (of_char c :: nat) < 0x20 then None
      else prepend [c] (lex_string cs))"

lemma lex_string_shorter: "lex_string cs = Some (s, rest) \<Longrightarrow> length rest < length cs"
proof (induction "length cs" arbitrary: cs s rest rule: less_induct)
  case less
  show ?case
  proof (cases cs)
    case Nil
    with less.prems show ?thesis by simp
  next
    case (Cons c cs0)
    have IH: "length rest < Suc (length cs0)"
      if "lex_string t = Some (s', rest)" "length t \<le> length cs0" for t s'
      using less.hyps [of t s' rest] that Cons by simp
    from less.prems show ?thesis
      unfolding Cons
      by (auto simp add: prepend_def
          split: if_splits list.splits option.splits prod.splits
          dest!: IH)
  qed
qed

lemma lex_fraction_shorter: "lex_fraction cs = Some (fp, rest) \<Longrightarrow> length rest \<le> length cs"
  by (auto simp add: lex_fraction_def Let_def length_dropWhile_le le_SucI
      split: list.splits if_splits)

lemma lex_exponent_shorter: "lex_exponent cs = Some (ex, rest) \<Longrightarrow> length rest \<le> length cs"
  by (auto simp add: lex_exponent_def Let_def length_dropWhile_le le_SucI
      split: list.splits if_splits
      intro: order_trans [OF length_dropWhile_le])

lemma lex_number_shorter:
  assumes "lex_number cs = Some (v, rest)"
  shows "length rest < length cs"
proof -
  define neg where "neg = (case cs of [] \<Rightarrow> False | s # _ \<Rightarrow> s = CHR ''-'')"
  define cs1 where "cs1 = (if neg then tl cs else cs)"
  from assms obtain fp cs2 ex where
    ip: "takeWhile is_digit cs1 \<noteq> []" and
    f: "lex_fraction (dropWhile is_digit cs1) = Some (fp, cs2)" and
    e: "lex_exponent cs2 = Some (ex, rest)"
    by (auto simp add: lex_number_def Let_def neg_def cs1_def
        split: if_splits option.splits prod.splits)
  from ip have "cs1 \<noteq> []" by auto
  with ip have "length (dropWhile is_digit cs1) < length cs1"
    by (cases cs1) (auto split: if_splits simp add: less_Suc_eq_le length_dropWhile_le)
  moreover have "length cs1 \<le> length cs"
    by (simp add: cs1_def)
  moreover note lex_fraction_shorter [OF f] lex_exponent_shorter [OF e]
  ultimately show ?thesis by linarith
qed

text \<open>
  The tokens of a JSON text, or \<open>None\<close> when some character starts no
  token. White space between tokens is space, tab, line feed and carriage
  return.
\<close>

definition is_json_ws :: "char \<Rightarrow> bool" where
  "is_json_ws c = (c = CHR 0x20 \<or> c = CHR 0x09 \<or> c = CHR 0x0A \<or> c = CHR 0x0D)"

definition cons_token :: "token \<Rightarrow> token list option \<Rightarrow> token list option" where
  "cons_token t r = (case r of None \<Rightarrow> None | Some ts \<Rightarrow> Some (t # ts))"

function tokenize :: "string \<Rightarrow> token list option" where
  "tokenize [] = Some []"
| "tokenize (c # cs) =
     (if is_json_ws c then tokenize cs
      else if c = CHR ''{'' then cons_token T_lbrace (tokenize cs)
      else if c = CHR ''}'' then cons_token T_rbrace (tokenize cs)
      else if c = CHR ''['' then cons_token T_lbracket (tokenize cs)
      else if c = CHR '']'' then cons_token T_rbracket (tokenize cs)
      else if c = CHR '':'' then cons_token T_colon (tokenize cs)
      else if c = CHR '','' then cons_token T_comma (tokenize cs)
      else if c = CHR 0x22 then
        (case lex_string cs of
           None \<Rightarrow> None
         | Some (s, rest) \<Rightarrow> cons_token (T_scalar (JString s)) (tokenize rest))
      else if c = CHR ''-'' \<or> is_digit c then
        (case lex_number (c # cs) of
           None \<Rightarrow> None
         | Some (v, rest) \<Rightarrow> cons_token (T_scalar v) (tokenize rest))
      else if take 4 (c # cs) = ''true'' then
        cons_token (T_scalar (JBool True)) (tokenize (drop 3 cs))
      else if take 5 (c # cs) = ''false'' then
        cons_token (T_scalar (JBool False)) (tokenize (drop 4 cs))
      else if take 4 (c # cs) = ''null'' then
        cons_token (T_scalar JNull) (tokenize (drop 3 cs))
      else None)"
  by pat_completeness auto
termination
proof (relation "measure length")
  fix c cs x s rest
  assume "lex_string cs = Some x" "(s, rest) = x"
  then show "(rest, c # cs) \<in> measure length"
    using lex_string_shorter [of cs s rest] by simp
next
  fix c cs x v rest
  assume "lex_number (c # cs) = Some x" "(v, rest) = x"
  then show "(rest, c # cs) \<in> measure length"
    using lex_number_shorter [of "c # cs" v rest] by simp
qed simp_all

text \<open>
  Storing a member in an object: a key that is already there keeps its place
  and takes the new value; a new key goes to the end.
\<close>

fun object_put :: "(string \<times> json) list \<Rightarrow> string \<Rightarrow> json \<Rightarrow> (string \<times> json) list" where
  "object_put [] k v = [(k, v)]"
| "object_put (p # ps) k v = (if fst p = k then (k, v) # ps else p # object_put ps k v)"

text \<open>
  The parser reads the tokens from left to right, keeping the containers that
  are still open: an array with its elements so far (last first), an object
  with its members so far and the key whose value is awaited.
\<close>

datatype frame =
  In_array "json list"
| In_object "(string \<times> json) list" "string option"

datatype expect =
  Value | Value_or_close | Key_or_close | Key | Colon | Comma_or_close | Finished json

type_synonym pstate = "frame list \<times> expect"

text \<open>A complete value goes into the innermost open container, or is the result.\<close>

fun put_value :: "json \<Rightarrow> frame list \<Rightarrow> pstate option" where
  "put_value v [] = Some ([], Finished v)"
| "put_value v (In_array xs # st) = Some (In_array (v # xs) # st, Comma_or_close)"
| "put_value v (In_object ms (Some k) # st) =
     Some (In_object (object_put ms k v) None # st, Comma_or_close)"
| "put_value v (In_object ms None # st) = None"

fun parse_step :: "token \<Rightarrow> pstate \<Rightarrow> pstate option" where
  "parse_step (T_scalar v) (st, Value) = put_value v st"
| "parse_step (T_scalar v) (st, Value_or_close) = put_value v st"
| "parse_step T_lbracket (st, Value) = Some (In_array [] # st, Value_or_close)"
| "parse_step T_lbracket (st, Value_or_close) = Some (In_array [] # st, Value_or_close)"
| "parse_step T_lbrace (st, Value) = Some (In_object [] None # st, Key_or_close)"
| "parse_step T_lbrace (st, Value_or_close) = Some (In_object [] None # st, Key_or_close)"
| "parse_step T_rbracket (In_array xs # st, Value_or_close) = put_value (JArray (rev xs)) st"
| "parse_step T_rbracket (In_array xs # st, Comma_or_close) = put_value (JArray (rev xs)) st"
| "parse_step T_rbrace (In_object ms None # st, Key_or_close) = put_value (JObject ms) st"
| "parse_step T_rbrace (In_object ms None # st, Comma_or_close) = put_value (JObject ms) st"
| "parse_step (T_scalar (JString k)) (In_object ms None # st, Key_or_close) =
     Some (In_object ms (Some k) # st, Colon)"
| "parse_step (T_scalar (JString k)) (In_object ms None # st, Key) =
     Some (In_object ms (Some k) # st, Colon)"
| "parse_step T_colon (st, Colon) = Some (st, Value)"
| "parse_step T_comma (In_array xs # st, Comma_or_close) = Some (In_array xs # st, Value)"
| "parse_step T_comma (In_object ms None # st, Comma_or_close) =
     Some (In_object ms None # st, Key)"
| "parse_step _ _ = None"

fun parse_tokens :: "token list \<Rightarrow> pstate \<Rightarrow> json option" where
  "parse_tokens [] (st, Finished v) = (if st = [] then Some v else None)"
| "parse_tokens [] _ = None"
| "parse_tokens (t # ts) s =
     (case parse_step t s of None \<Rightarrow> None | Some s' \<Rightarrow> parse_tokens ts s')"

text \<open>
  \<open>JSON.parse\<close>: the value of a JSON text, or \<open>None\<close> where the platform
  throws a \<open>SyntaxError\<close>.
\<close>

definition JSON_parse :: "string \<Rightarrow> json option" where
  "JSON_parse text =
     (case tokenize text of None \<Rightarrow> None | Some ts \<Rightarrow> parse_tokens ts ([], Value))"

subsection \<open>\<open>String\<close> of a number and of a JSON value\<close>

definition digit_char :: "nat \<Rightarrow> char" where
  "digit_char d = char_of (48 + d)"

fun nat_digits :: "nat \<Rightarrow> string" where
  "nat_digits n = (if n < 10 then [digit_char n] else nat_digits (n div 10) @ [digit_char (n mod 10)])"

declare nat_digits.simps [simp del]

text \<open>The decimal digits of an integer, with a minus sign when it is negative.\<close>

definition decimal :: "int \<Rightarrow> string" where
  "decimal n = (if n < 0 then CHR ''-'' # nat_digits (nat (- n)) else nat_digits (nat n))"

text \<open>
  A number given to the client. The client never computes with such a
  number: it replaces a missing one by a default and prints it with
  \<open>String\<close>. \<open>Safe w\<close> is the integer \<open>sint w\<close>, from \<open>-2^53\<close> to \<open>2^53 - 1\<close>; a
  double holds each of these integers exactly, and \<open>String\<close> prints its
  decimal digits. \<open>Other s\<close> is any other number (a fraction, an integer of
  larger magnitude, \<open>NaN\<close>, an infinity), given by the text \<open>s\<close> that
  \<open>String\<close> prints for it, such as \<open>1.5\<close> or \<open>1e+21\<close>.
\<close>

datatype number = Safe "54 word" | Other string

definition Number_toString :: "number \<Rightarrow> string" where
  "Number_toString x = (case x of Safe w \<Rightarrow> decimal (sint w) | Other s \<Rightarrow> s)"

text \<open>
  The integer that \<open>JNumber m e\<close> denotes, when it is an integer of magnitude
  at most \<open>2^53\<close>.
\<close>

definition safe_integer :: "int \<Rightarrow> int \<Rightarrow> int option" where
  "safe_integer m e =
     (if 0 \<le> e then
        (if \<bar>m * 10 ^ nat e\<bar> \<le> 2 ^ 53 then Some (m * 10 ^ nat e) else None)
      else if m mod 10 ^ nat (- e) = 0 \<and> \<bar>m div 10 ^ nat (- e)\<bar> \<le> 2 ^ 53
        then Some (m div 10 ^ nat (- e))
      else None)"

text \<open>
  \<open>String(v)\<close> for a JSON value: an array prints its elements separated by
  commas, \<open>null\<close> elements as nothing; an object prints as
  \<open>[object Object]\<close>. \<open>None\<close> marks a number outside the exact part of the
  model.
\<close>

fun sequence :: "'a option list \<Rightarrow> 'a list option" where
  "sequence [] = Some []"
| "sequence (None # xs) = None"
| "sequence (Some x # xs) = (case sequence xs of None \<Rightarrow> None | Some ys \<Rightarrow> Some (x # ys))"

fun ToString :: "json \<Rightarrow> string option" where
  "ToString JNull = Some ''null''"
| "ToString (JBool b) = Some (if b then ''true'' else ''false'')"
| "ToString (JNumber m e) = map_option decimal (safe_integer m e)"
| "ToString (JString s) = Some s"
| "ToString (JArray xs) =
     map_option (join '','')
       (sequence (map (\<lambda>x. if x = JNull then Some [] else ToString x) xs))"
| "ToString (JObject ms) = Some ''[object Object]''"

subsection \<open>White space, \<open>trim\<close> and \<open>split\<close>\<close>

text \<open>
  The white space and line terminator characters of ECMAScript, in UTF-8:
  U+0009 to U+000D, U+0020, U+00A0, U+1680, U+2000 to U+200A, U+2028, U+2029,
  U+202F, U+205F, U+3000 and U+FEFF.
\<close>

definition js_whitespace :: "string list" where
  "js_whitespace =
     [[CHR 0x09], [CHR 0x0A], [CHR 0x0B], [CHR 0x0C], [CHR 0x0D], [CHR 0x20],
      [CHR 0xC2, CHR 0xA0],
      [CHR 0xE1, CHR 0x9A, CHR 0x80],
      [CHR 0xE2, CHR 0x80, CHR 0x80], [CHR 0xE2, CHR 0x80, CHR 0x81],
      [CHR 0xE2, CHR 0x80, CHR 0x82], [CHR 0xE2, CHR 0x80, CHR 0x83],
      [CHR 0xE2, CHR 0x80, CHR 0x84], [CHR 0xE2, CHR 0x80, CHR 0x85],
      [CHR 0xE2, CHR 0x80, CHR 0x86], [CHR 0xE2, CHR 0x80, CHR 0x87],
      [CHR 0xE2, CHR 0x80, CHR 0x88], [CHR 0xE2, CHR 0x80, CHR 0x89],
      [CHR 0xE2, CHR 0x80, CHR 0x8A],
      [CHR 0xE2, CHR 0x80, CHR 0xA8], [CHR 0xE2, CHR 0x80, CHR 0xA9],
      [CHR 0xE2, CHR 0x80, CHR 0xAF],
      [CHR 0xE2, CHR 0x81, CHR 0x9F],
      [CHR 0xE3, CHR 0x80, CHR 0x80],
      [CHR 0xEF, CHR 0xBB, CHR 0xBF]]"

text \<open>
  Removing from the front of a string, as long as there is one, any of the
  given non-empty sequences.
\<close>

function strip_prefixes :: "string list \<Rightarrow> string \<Rightarrow> string" where
  "strip_prefixes ws s =
     (case find (\<lambda>w. w \<noteq> [] \<and> take (length w) s = w) ws of
        None \<Rightarrow> s
      | Some w \<Rightarrow> strip_prefixes ws (drop (length w) s))"
  by pat_completeness auto
termination
proof (relation "measure (\<lambda>(ws, s). length s)")
  fix ws :: "string list" and s w :: string
  assume "find (\<lambda>w. w \<noteq> [] \<and> take (length w) s = w) ws = Some w"
  then have "w \<noteq> []" and "take (length w) s = w"
    by (auto simp add: find_Some_iff)
  then have "s \<noteq> []" by auto
  with \<open>w \<noteq> []\<close> show "((ws, drop (length w) s), (ws, s)) \<in> measure (\<lambda>(ws, s). length s)"
    by simp
qed simp

declare strip_prefixes.simps [simp del]

definition trimStart :: "string \<Rightarrow> string" where
  "trimStart s = strip_prefixes js_whitespace s"

definition trim :: "string \<Rightarrow> string" where
  "trim s = rev (strip_prefixes (map rev js_whitespace) (rev (trimStart s)))"

text \<open>\<open>s.split(c)\<close> for a one-character separator: the pieces between its occurrences.\<close>

fun js_split :: "char \<Rightarrow> string \<Rightarrow> string list" where
  "js_split c [] = [[]]"
| "js_split c (x # xs) =
     (if x = c then [] # js_split c xs
      else (case js_split c xs of [] \<Rightarrow> [[x]] | p # ps \<Rightarrow> (x # p) # ps))"

subsection \<open>\<open>parseInt\<close> with radix 10\<close>

text \<open>
  A JavaScript number as far as \<open>parseInt\<close> gives one here: an integer,
  \<open>NaN\<close>, or a value that the platform rounds and the model does not compute.
\<close>

datatype js_number = Integer int | NaN | Outside_model

text \<open>
  \<open>parseInt(s, 10)\<close> on a string: leading white space is skipped, a sign is
  read, and the longest run of decimal digits that follows is the value;
  \<open>NaN\<close> when there is no digit.
\<close>

definition parseInt_string :: "string \<Rightarrow> js_number" where
  "parseInt_string s =
     (let t = trimStart s;
          neg = (case t of [] \<Rightarrow> False | c # _ \<Rightarrow> c = CHR ''-'');
          t' = (case t of [] \<Rightarrow> t
                | c # r \<Rightarrow> if c = CHR ''-'' \<or> c = CHR ''+'' then r else t);
          ds = takeWhile is_digit t'
      in if ds = [] then NaN
         else if int_of_digits ds \<le> 2 ^ 53
           then Integer (if neg then - int_of_digits ds else int_of_digits ds)
         else Outside_model)"

text \<open>\<open>parseInt(v, 10)\<close> on any value: the value is first converted with \<open>String\<close>.\<close>

definition parseInt :: "json \<Rightarrow> js_number" where
  "parseInt v = (case ToString v of None \<Rightarrow> Outside_model | Some s \<Rightarrow> parseInt_string s)"

subsection \<open>\<open>URLSearchParams\<close>\<close>

text \<open>
  A \<open>URLSearchParams\<close> object is its list of name-value pairs; \<open>append\<close> adds
  a pair at the end. \<open>toString\<close> writes the pairs as \<open>name=value\<close>, joined by
  \<open>&\<close>, each name and value percent-encoded byte by byte: letters, digits
  and \<open>* - . _\<close> stay, a space becomes \<open>+\<close>, any other byte becomes \<open>%\<close>
  and two upper-case hexadecimal digits.
\<close>

type_synonym URLSearchParams = "(string \<times> string) list"

definition searchParams_append :: "URLSearchParams \<Rightarrow> string \<Rightarrow> string \<Rightarrow> URLSearchParams" where
  "searchParams_append sp name v = sp @ [(name, v)]"

definition hex_digit :: "nat \<Rightarrow> char" where
  "hex_digit d = (if d < 10 then char_of (48 + d) else char_of (55 + d))"

definition unreserved :: "char \<Rightarrow> bool" where
  "unreserved c =
     (let n = (of_char c :: nat) in
      (48 \<le> n \<and> n \<le> 57) \<or> (65 \<le> n \<and> n \<le> 90) \<or> (97 \<le> n \<and> n \<le> 122)
      \<or> n = 42 \<or> n = 45 \<or> n = 46 \<or> n = 95)"

definition encode_byte :: "char \<Rightarrow> string" where
  "encode_byte c =
     (if c = CHR 0x20 then ''+''
      else if unreserved c then [c]
      else [CHR ''%'', hex_digit ((of_char c :: nat) div 16), hex_digit ((of_char c :: nat) mod 16)])"

definition urlencode :: "string \<Rightarrow> string" where
  "urlencode s = concat (map encode_byte s)"

definition encode_pair :: "string \<times> string \<Rightarrow> string" where
  "encode_pair p = urlencode (fst p) @ ''='' @ urlencode (snd p)"

definition toString :: "URLSearchParams \<Rightarrow> string" where
  "toString sp = join ''&'' (map encode_pair sp)"

section \<open>The Iterable API client (client/iterable.ts)\<close>

subsection \<open>Errors, requests and responses\<close>

record IterableClientConfig =
  cfg_apiKey :: string
  cfg_baseUrl :: "string option"

text \<open>
  The class \<open>IterableApiError\<close>, by its three fields. Its body is declared
  \<open>unknown\<close>; every value the client stores there is a string. Its status
  is the status code of a response, or 0.
\<close>

record IterableApiError =
  status :: int
  statusText :: string
  body :: string

record IterableClient =
  apiKey :: string
  baseUrl :: string

text \<open>The constructor: an absent or empty base URL gives the default one.\<close>

definition new_IterableClient :: "IterableClientConfig \<Rightarrow> IterableClient" where
  "new_IterableClient config =
     \<lparr>apiKey = cfg_apiKey config,
      baseUrl = (case cfg_baseUrl config of
                   None \<Rightarrow> ''https://api.iterable.com''
                 | Some b \<Rightarrow> if b \<noteq> [] then b else ''https://api.iterable.com'')\<rparr>"

text \<open>\<open>getClient\<close> of the agent: a client for the key and base URL of its environment.\<close>

definition getClient :: "'ns Env \<Rightarrow> IterableClient" where
  "getClient env =
     new_IterableClient
       \<lparr>cfg_apiKey = (case ITERABLE_API_KEY env of None \<Rightarrow> [] | Some k \<Rightarrow> k),
        cfg_baseUrl = js_or (ITERABLE_API_BASE_URL env) (Some ''https://api.iterable.com'')\<rparr>"

text \<open>
  A query parameter value is a string, a number or a boolean; \<open>undefined\<close> is
  \<open>None\<close>. The parameters of a request are the entries of an object literal,
  in the order in which the source writes them.
\<close>

datatype param = PString string | PNumber number | PBoolean bool

definition String_param :: "param \<Rightarrow> string" where
  "String_param v =
     (case v of
        PString s \<Rightarrow> s
      | PNumber n \<Rightarrow> Number_toString n
      | PBoolean b \<Rightarrow> if b then ''true'' else ''false'')"

type_synonym params = "(string \<times> param option) list"

record request_options =
  opt_body :: "json option"
  opt_params :: "params option"

text \<open>
  What the client passes to \<open>fetch\<close>. The body is kept as the value that
  \<open>JSON.stringify\<close> is applied to; a falsy body is not sent.
\<close>

record FetchRequest =
  fr_url :: string
  fr_method :: string
  fr_headers :: "(string \<times> string) list"
  fr_body :: "json option"

definition json_truthy :: "json \<Rightarrow> bool" where
  "json_truthy v =
     (case v of
        JNull \<Rightarrow> False
      | JBool b \<Rightarrow> b
      | JNumber m e \<Rightarrow> m \<noteq> 0
      | JString s \<Rightarrow> s \<noteq> []
      | JArray xs \<Rightarrow> True
      | JObject ms \<Rightarrow> True)"

text \<open>
  A value thrown by the platform (by \<open>fetch\<close> or by reading a body), as the
  handler of \<open>request\<close> looks at it: an \<open>Error\<close> with its message, or any
  other value with what \<open>String\<close> gives for it. The platform does not throw
  an \<open>IterableApiError\<close>: that class belongs to the client, and \<open>request\<close>
  is the only place that constructs one.
\<close>

datatype js_exception = Error_object string | Other_value string

text \<open>
  What the client reads from a response: \<open>ok\<close>, \<open>status\<close>, \<open>statusText\<close> and
  the outcome of \<open>text()\<close>, which may fail.
\<close>

record Response =
  ok :: bool
  resp_status :: int
  resp_statusText :: string
  resp_text :: "js_exception + string"

text \<open>\<open>fetch\<close> is the network: it throws, or it gives a response.\<close>

type_synonym fetch = "FetchRequest \<Rightarrow> js_exception + Response"

subsection \<open>\<open>request\<close>\<close>

text \<open>
  The first part of \<open>request\<close>: the URL. The defined parameters are appended
  to a \<open>URLSearchParams\<close> in order, and its text, when not empty, follows a
  question mark.
\<close>

definition params_searchParams :: "params \<Rightarrow> URLSearchParams" where
  "params_searchParams ps =
     foldl (\<lambda>searchParams entry.
              case snd entry of
                None \<Rightarrow> searchParams
              | Some v \<Rightarrow> searchParams_append searchParams (fst entry) (String_param v))
           [] ps"

definition request_url :: "IterableClient \<Rightarrow> string \<Rightarrow> request_options option \<Rightarrow> string" where
  "request_url client path options =
     (let url = baseUrl client @ path in
      case (case options of None \<Rightarrow> None | Some opts \<Rightarrow> opt_params opts) of
        None \<Rightarrow> url
      | Some ps \<Rightarrow>
          (let queryString = toString (params_searchParams ps)
           in if queryString \<noteq> [] then url @ ''?'' @ queryString else url))"

definition fetch_request ::
  "IterableClient \<Rightarrow> string \<Rightarrow> string \<Rightarrow> request_options option \<Rightarrow> FetchRequest" where
  "fetch_request client method path options =
     \<lparr>fr_url = request_url client path options,
      fr_method = method,
      fr_headers = [(''Api-Key'', apiKey client),
                    (''Content-Type'', ''application/json''),
                    (''User-Agent'', ''iterable-mcp-cloudflare/1.0.0'')],
      fr_body = (case (case options of None \<Rightarrow> None | Some opts \<Rightarrow> opt_body opts) of
                   None \<Rightarrow> None
                 | Some b \<Rightarrow> if json_truthy b then Some b else None)\<rparr>"

text \<open>
  What the \<open>try\<close> block throws: the \<open>IterableApiError\<close> it raises itself for a
  response that is not ok, or a value thrown by the platform.
\<close>

datatype thrown = Thrown_api IterableApiError | Thrown_other js_exception

text \<open>
  The \<open>try\<close> block after the call of \<open>fetch\<close>. A response that is not ok
  raises an \<open>IterableApiError\<close> with its status, its status text and its body
  text (empty when the body cannot be read). Otherwise the body text is read:
  empty, the result is the empty object; else the parsed JSON value; else,
  when it is not JSON, the text itself.
\<close>

definition handle_outcome :: "js_exception + Response \<Rightarrow> thrown + json" where
  "handle_outcome outcome =
     (case outcome of
        Inl e \<Rightarrow> Inl (Thrown_other e)
      | Inr response \<Rightarrow>
          if \<not> ok response then
            (let body = (case resp_text response of Inl _ \<Rightarrow> [] | Inr t \<Rightarrow> t)
             in Inl (Thrown_api \<lparr>status = resp_status response,
                                 statusText = resp_statusText response,
                                 body = body\<rparr>))
          else
            (case resp_text response of
               Inl e \<Rightarrow> Inl (Thrown_other e)
             | Inr text \<Rightarrow>
                 if text = [] then Inr (JObject [])
                 else (case JSON_parse text of
                         Some v \<Rightarrow> Inr v
                       | None \<Rightarrow> Inr (JString text))))"

text \<open>
  The \<open>catch\<close> block: an \<open>IterableApiError\<close> is thrown again as it is; any
  other value becomes an \<open>IterableApiError\<close> with status 0.
\<close>

definition catch_block :: "thrown + json \<Rightarrow> IterableApiError + json" where
  "catch_block r =
     (case r of
        Inr v \<Rightarrow> Inr v
      | Inl (Thrown_api error) \<Rightarrow> Inl error
      | Inl (Thrown_other error) \<Rightarrow>
          Inl \<lparr>status = 0, statusText = ''Network Error'',
               body = (case error of Error_object message \<Rightarrow> message
                       | Other_value s \<Rightarrow> s)\<rparr>)"

definition request ::
  "fetch \<Rightarrow> IterableClient \<Rightarrow> string \<Rightarrow> string \<Rightarrow> request_options option
     \<Rightarrow> IterableApiError + json" where
  "request fetch client method path options =
     catch_block (handle_outcome (fetch (fetch_request client method path options)))"

subsection \<open>The methods of the client that the properties are about\<close>

record CampaignsParams =
  page :: "number option"
  pageSize :: "number option"
  sort_field :: "string option"

definition getCampaigns ::
  "fetch \<Rightarrow> IterableClient \<Rightarrow> CampaignsParams option \<Rightarrow> IterableApiError + json" where
  "getCampaigns fetch client params =
     request fetch client ''GET'' ''/api/campaigns''
       (Some \<lparr>opt_body = None,
              opt_params = Some
                [(''page'', Some (PNumber
                    (case (case params of None \<Rightarrow> None | Some p \<Rightarrow> page p) of
                       None \<Rightarrow> Safe 1 | Some n \<Rightarrow> n))),
                 (''pageSize'', Some (PNumber
                    (case (case params of None \<Rightarrow> None | Some p \<Rightarrow> pageSize p) of
                       None \<Rightarrow> Safe 20 | Some n \<Rightarrow> n))),
                 (''sort'', map_option PString
                    (case params of None \<Rightarrow> None | Some p \<Rightarrow> sort_field p))]\<rparr>)"

record SentMessagesParams =
  email :: "string option"
  userId :: "string option"
  limit :: "number option"
  campaignIds :: "number list option"
  startDateTime :: "string option"
  endDateTime :: "string option"
  messageMedium :: "string option"

text \<open>
  \<open>getSentMessages\<close> builds its query string itself: the defined scalar
  parameters in the order of the object literal, then one pair
  \<open>campaignIds\<close> for each element of the array; the path with the query
  string goes to \<open>request\<close> without further parameters.
\<close>

definition sentMessages_queryParams :: "SentMessagesParams \<Rightarrow> params" where
  "sentMessages_queryParams params =
     [(''email'', map_option PString (email params)),
      (''userId'', map_option PString (userId params)),
      (''limit'', map_option PNumber (limit params)),
      (''startDateTime'', map_option PString (startDateTime params)),
      (''endDateTime'', map_option PString (endDateTime params)),
      (''messageMedium'', map_option PString (messageMedium params))]"

definition sentMessages_searchParams :: "SentMessagesParams \<Rightarrow> URLSearchParams" where
  "sentMessages_searchParams params =
     (let searchParams = params_searchParams (sentMessages_queryParams params)
      in case campaignIds params of
           None \<Rightarrow> searchParams
         | Some ids \<Rightarrow>
             foldl (\<lambda>sp id. searchParams_append sp ''campaignIds'' (Number_toString id))
               searchParams ids)"

definition sentMessages_path :: "SentMessagesParams \<Rightarrow> string" where
  "sentMessages_path params =
     (let queryString = toString (sentMessages_searchParams params)
      in if queryString \<noteq> [] then ''/api/users/getSentMessages'' @ ''?'' @ queryString
         else ''/api/users/getSentMessages'')"

definition getSentMessages ::
  "fetch \<Rightarrow> IterableClient \<Rightarrow> SentMessagesParams \<Rightarrow> IterableApiError + json" where
  "getSentMessages fetch client params =
     request fetch client ''GET'' (sentMessages_path params) None"

record ListSize =
  size_field :: js_number

definition getListSize :: "fetch \<Rightarrow> IterableClient \<Rightarrow> number \<Rightarrow> IterableApiError + ListSize" where
  "getListSize fetch client listId =
     (case request fetch client ''GET''
             (''/api/lists/'' @ Number_toString listId @ ''/size'') None of
        Inl e \<Rightarrow> Inl e
      | Inr result \<Rightarrow> Inr \<lparr>size_field = parseInt result\<rparr>)"

record ListUsersParams =
  listId :: number
  maxResults :: "number option"

text \<open>
  \<open>getListUsers\<close>: a result that is a string is trimmed and split at line
  feeds; the lines that are not blank, trimmed, become the users. Any other
  result is returned as it is.
\<close>

definition getListUsers ::
  "fetch \<Rightarrow> IterableClient \<Rightarrow> ListUsersParams \<Rightarrow> IterableApiError + json" where
  "getListUsers fetch client params =
     (case request fetch client ''GET'' ''/api/lists/getUsers''
             (Some \<lparr>opt_body = None,
                    opt_params = Some
                      [(''listId'', Some (PNumber (listId params))),
                       (''maxResults'', map_option PNumber (maxResults params))]\<rparr>) of
        Inl e \<Rightarrow> Inl e
      | Inr (JString result) \<Rightarrow>
          (let emails = filter (\<lambda>email. trim email \<noteq> []) (js_split (CHR 0x0A) (trim result))
           in Inr (JObject
                [(''users'',
                  JArray (map (\<lambda>email. JObject [(''email'', JString (trim email))]) emails))]))
      | Inr result \<Rightarrow> Inr result)"

section \<open>Properties of the permission evaluator\<close>

lemma empty_name_in_no_set:
  "'''' \<notin> NON_PII_TOOLS" "'''' \<notin> READ_ONLY_TOOLS" "'''' \<notin> SEND_TOOLS"
  by (simp_all add: NON_PII_TOOLS_def READ_ONLY_TOOLS_def SEND_TOOLS_def)

lemma unknown_name_in_no_set:
  "''totally_unknown_tool'' \<notin> NON_PII_TOOLS"
  "''totally_unknown_tool'' \<notin> READ_ONLY_TOOLS"
  "''totally_unknown_tool'' \<notin> SEND_TOOLS"
  by (simp_all add: NON_PII_TOOLS_def READ_ONLY_TOOLS_def SEND_TOOLS_def)

lemma send_email_membership:
  "''send_email'' \<notin> NON_PII_TOOLS"
  "''send_email'' \<notin> READ_ONLY_TOOLS"
  "''send_email'' \<in> SEND_TOOLS"
  by (simp_all add: NON_PII_TOOLS_def READ_ONLY_TOOLS_def SEND_TOOLS_def)

lemma get_campaigns_membership:
  "''get_campaigns'' \<in> NON_PII_TOOLS"
  "''get_campaigns'' \<in> READ_ONLY_TOOLS"
  "''get_campaigns'' \<notin> SEND_TOOLS"
  by (simp_all add: NON_PII_TOOLS_def READ_ONLY_TOOLS_def SEND_TOOLS_def)

text \<open>
  C1, as stated, fails: with all three flags enabled no guard fires, so the
  empty name is allowed.
\<close>

theorem isToolAllowed_empty_full_access:
  "isToolAllowed '''' \<lparr>allowUserPii = True, allowWrites = True, allowSends = True\<rparr> = True"
  by (simp add: isToolAllowed_def)

text \<open>
  C1 (amended): under every configuration in which the PII flag or the write
  flag is off, the empty name and the name \<open>totally_unknown_tool\<close>, which are in
  none of the three sets, are denied.
\<close>

theorem isToolAllowed_default_deny:
  "\<not> (allowUserPii c \<and> allowWrites c) \<Longrightarrow>
     isToolAllowed '''' c = False \<and> isToolAllowed ''totally_unknown_tool'' c = False"
  by (auto simp add: isToolAllowed_def empty_name_in_no_set unknown_name_in_no_set)

theorem isToolAllowed_default_deny_witness:
  "\<not> (allowUserPii \<lparr>allowUserPii = False, allowWrites = True, allowSends = True\<rparr>
       \<and> allowWrites \<lparr>allowUserPii = False, allowWrites = True, allowSends = True\<rparr>)
   \<and> isToolAllowed '''' \<lparr>allowUserPii = False, allowWrites = True, allowSends = True\<rparr> = False
   \<and> isToolAllowed ''totally_unknown_tool''
        \<lparr>allowUserPii = False, allowWrites = True, allowSends = True\<rparr> = False"
  using isToolAllowed_default_deny
    [of "\<lparr>allowUserPii = False, allowWrites = True, allowSends = True\<rparr>"]
  by simp

text \<open>
  C2: a tool is allowed exactly when no blocking reason is reported.
\<close>

theorem isToolAllowed_iff_no_reason:
  "isToolAllowed n c = True \<longleftrightarrow> getBlockedReason n c = None"
  by (simp add: isToolAllowed_def getBlockedReason_def)

text \<open>
  C3: for a name outside the non-PII set, outside the read-only set and inside
  the send set, with all three flags off, the reported reason is the PII
  message, which is neither the write nor the send message.
\<close>

theorem getBlockedReason_pii_first:
  "n \<notin> NON_PII_TOOLS \<Longrightarrow> n \<notin> READ_ONLY_TOOLS \<Longrightarrow> n \<in> SEND_TOOLS \<Longrightarrow>
     getBlockedReason n \<lparr>allowUserPii = False, allowWrites = False, allowSends = False\<rparr>
       = Some pii_reason
     \<and> pii_reason \<noteq> write_reason \<and> pii_reason \<noteq> send_reason"
  by (simp add: getBlockedReason_def pii_reason_def write_reason_def send_reason_def)

theorem getBlockedReason_pii_first_witness:
  "''send_email'' \<notin> NON_PII_TOOLS \<and> ''send_email'' \<notin> READ_ONLY_TOOLS
   \<and> ''send_email'' \<in> SEND_TOOLS
   \<and> getBlockedReason ''send_email''
        \<lparr>allowUserPii = False, allowWrites = False, allowSends = False\<rparr>
       = Some ''This tool exposes user PII. Enable with ITERABLE_USER_PII=true''"
  using getBlockedReason_pii_first [of "''send_email''"] send_email_membership
  by (simp add: pii_reason_def)

text \<open>
  C4: enabling more flags never revokes a tool. If every flag set in \<open>c1\<close>
  is also set in \<open>c2\<close>, a tool allowed under \<open>c1\<close> is allowed under \<open>c2\<close>.
\<close>

theorem isToolAllowed_monotone:
  "(allowUserPii c1 \<longrightarrow> allowUserPii c2) \<Longrightarrow>
   (allowWrites c1 \<longrightarrow> allowWrites c2) \<Longrightarrow>
   (allowSends c1 \<longrightarrow> allowSends c2) \<Longrightarrow>
   isToolAllowed n c1 = True \<Longrightarrow> isToolAllowed n c2 = True"
  by (auto simp add: isToolAllowed_def split: if_splits)

theorem isToolAllowed_monotone_witness:
  "isToolAllowed ''get_user_by_email''
        \<lparr>allowUserPii = True, allowWrites = False, allowSends = False\<rparr> = True
   \<and> isToolAllowed ''get_user_by_email''
        \<lparr>allowUserPii = True, allowWrites = True, allowSends = True\<rparr> = True"
proof -
  have a: "isToolAllowed ''get_user_by_email''
        \<lparr>allowUserPii = True, allowWrites = False, allowSends = False\<rparr> = True"
    by (simp add: isToolAllowed_def READ_ONLY_TOOLS_def SEND_TOOLS_def)
  have b: "isToolAllowed ''get_user_by_email''
        \<lparr>allowUserPii = True, allowWrites = True, allowSends = True\<rparr> = True"
    by (rule isToolAllowed_monotone [OF _ _ _ a]) simp_all
  from a b show ?thesis by simp
qed


section \<open>Properties of the worker entry point\<close>

lemma truthy_Some [simp]: "truthy (Some s) = (s \<noteq> [])"
  by (simp add: truthy_def)

lemma truthy_None [simp]: "truthy None = False"
  by (simp add: truthy_def)

text \<open>
  C5: the resolved credential is the query value when that is non-empty;
  otherwise the header value when that is non-empty; otherwise the environment
  default. In particular, when all three are present, non-empty and different,
  it is the query value.
\<close>

theorem apiKey_precedence:
  "(q \<noteq> [] \<and> searchParams_get (searchParams req) ''api_key'' = Some q
      \<longrightarrow> apiKey_of req env = Some q)
   \<and> (\<not> truthy (searchParams_get (searchParams req) ''api_key'')
      \<and> h \<noteq> [] \<and> headers_get (req_headers req) ''X-Iterable-Api-Key'' = Some h
      \<longrightarrow> apiKey_of req env = Some h)
   \<and> (\<not> truthy (searchParams_get (searchParams req) ''api_key'')
      \<and> \<not> truthy (headers_get (req_headers req) ''X-Iterable-Api-Key'')
      \<longrightarrow> apiKey_of req env = ITERABLE_API_KEY env)"
  by (simp add: apiKey_of_def js_or_def)

theorem apiKey_precedence_witness:
  "apiKey_of \<lparr>pathname = ''/mcp'', searchParams = [(''api_key'', ''Q'')],
               req_headers = [(''x-iterable-api-key'', ''H'')]\<rparr>
             \<lparr>ITERABLE_API_KEY = Some ''E'', ITERABLE_API_BASE_URL = None,
               ITERABLE_USER_PII = ''false'', ITERABLE_ENABLE_WRITES = ''false'',
               ITERABLE_ENABLE_SENDS = ''false'', MCP_OBJECT = ()\<rparr> = Some ''Q''
   \<and> apiKey_of \<lparr>pathname = ''/mcp'', searchParams = [(''api_key'', [])],
               req_headers = [(''x-iterable-api-key'', ''H'')]\<rparr>
             \<lparr>ITERABLE_API_KEY = Some ''E'', ITERABLE_API_BASE_URL = None,
               ITERABLE_USER_PII = ''false'', ITERABLE_ENABLE_WRITES = ''false'',
               ITERABLE_ENABLE_SENDS = ''false'', MCP_OBJECT = ()\<rparr> = Some ''H''
   \<and> apiKey_of \<lparr>pathname = ''/mcp'', searchParams = [], req_headers = []\<rparr>
             \<lparr>ITERABLE_API_KEY = Some ''E'', ITERABLE_API_BASE_URL = None,
               ITERABLE_USER_PII = ''false'', ITERABLE_ENABLE_WRITES = ''false'',
               ITERABLE_ENABLE_SENDS = ''false'', MCP_OBJECT = ()\<rparr> = Some ''E''"
proof -
  have h: "headers_get [(''x-iterable-api-key'', ''H'')] ''X-Iterable-Api-Key'' = Some ''H''"
    by code_simp
  have n: "headers_get [] ''X-Iterable-Api-Key'' = None"
    by (simp add: headers_get_def)
  show ?thesis
    using apiKey_precedence
      [of "''Q''" "\<lparr>pathname = ''/mcp'', searchParams = [(''api_key'', ''Q'')],
               req_headers = [(''x-iterable-api-key'', ''H'')]\<rparr>" 
          "\<lparr>ITERABLE_API_KEY = Some ''E'', ITERABLE_API_BASE_URL = None,
               ITERABLE_USER_PII = ''false'', ITERABLE_ENABLE_WRITES = ''false'',
               ITERABLE_ENABLE_SENDS = ''false'', MCP_OBJECT = ()\<rparr>" "''H''"]
      apiKey_precedence
      [of "''Q''" "\<lparr>pathname = ''/mcp'', searchParams = [(''api_key'', [])],
               req_headers = [(''x-iterable-api-key'', ''H'')]\<rparr>" 
          "\<lparr>ITERABLE_API_KEY = Some ''E'', ITERABLE_API_BASE_URL = None,
               ITERABLE_USER_PII = ''false'', ITERABLE_ENABLE_WRITES = ''false'',
               ITERABLE_ENABLE_SENDS = ''false'', MCP_OBJECT = ()\<rparr>" "''H''"]
      apiKey_precedence
      [of "''Q''" "\<lparr>pathname = ''/mcp'', searchParams = [], req_headers = []\<rparr>" 
          "\<lparr>ITERABLE_API_KEY = Some ''E'', ITERABLE_API_BASE_URL = None,
               ITERABLE_USER_PII = ''false'', ITERABLE_ENABLE_WRITES = ''false'',
               ITERABLE_ENABLE_SENDS = ''false'', MCP_OBJECT = ()\<rparr>" "''H''"]
      h n
    by (simp add: searchParams_get_def)
qed

text \<open>
  C6: when no credential resolves and the path is \<open>/mcp\<close>, \<open>/sse\<close> or
  \<open>/sse/message\<close>, the entry point answers by itself with status 401 and hands
  nothing to the agent; and whenever it does hand a request to the agent, the
  environment it passes on carries the resolved key, which is non-empty, and
  the client that the agent builds from that environment sends this key.
\<close>

theorem worker_fetch_requires_key:
  "(\<not> truthy (apiKey_of req env)
      \<and> (pathname req = ''/mcp'' \<or> pathname req = ''/sse''
         \<or> pathname req = ''/sse/message'')
      \<longrightarrow> (\<exists>r. worker_fetch req env = Respond r \<and> wr_status r = 401))
   \<and> (\<forall>e. worker_fetch req env = ServeSSE e \<or> worker_fetch req env = ServeMcp e
      \<longrightarrow> ITERABLE_API_KEY e = apiKey_of req env \<and> truthy (ITERABLE_API_KEY e)
          \<and> apiKey (getClient e) \<noteq> []
          \<and> Some (apiKey (getClient e)) = apiKey_of req env)"
  by (auto simp add: worker_fetch_def Let_def getClient_def new_IterableClient_def truthy_def
      split: if_splits option.splits)

theorem worker_fetch_requires_key_witness:
  "(\<exists>r. worker_fetch \<lparr>pathname = ''/mcp'', searchParams = [], req_headers = []\<rparr>
             \<lparr>ITERABLE_API_KEY = None, ITERABLE_API_BASE_URL = None,
               ITERABLE_USER_PII = ''false'', ITERABLE_ENABLE_WRITES = ''false'',
               ITERABLE_ENABLE_SENDS = ''false'', MCP_OBJECT = ()\<rparr> = Respond r
         \<and> wr_status r = 401)
   \<and> \<not> truthy (apiKey_of \<lparr>pathname = ''/mcp'', searchParams = [], req_headers = []\<rparr>
             \<lparr>ITERABLE_API_KEY = None, ITERABLE_API_BASE_URL = None,
               ITERABLE_USER_PII = ''false'', ITERABLE_ENABLE_WRITES = ''false'',
               ITERABLE_ENABLE_SENDS = ''false'', MCP_OBJECT = ()\<rparr>)
   \<and> worker_fetch \<lparr>pathname = ''/mcp'', searchParams = [(''api_key'', ''Q'')],
                    req_headers = []\<rparr>
             \<lparr>ITERABLE_API_KEY = None, ITERABLE_API_BASE_URL = None,
               ITERABLE_USER_PII = ''false'', ITERABLE_ENABLE_WRITES = ''false'',
               ITERABLE_ENABLE_SENDS = ''false'', MCP_OBJECT = ()\<rparr>
       = ServeMcp \<lparr>ITERABLE_API_KEY = Some ''Q'', ITERABLE_API_BASE_URL = None,
               ITERABLE_USER_PII = ''false'', ITERABLE_ENABLE_WRITES = ''false'',
               ITERABLE_ENABLE_SENDS = ''false'', MCP_OBJECT = ()\<rparr>
   \<and> apiKey (getClient \<lparr>ITERABLE_API_KEY = Some ''Q'', ITERABLE_API_BASE_URL = None,
               ITERABLE_USER_PII = ''false'', ITERABLE_ENABLE_WRITES = ''false'',
               ITERABLE_ENABLE_SENDS = ''false'', MCP_OBJECT = ()\<rparr>) = ''Q''"
proof -
  have k: "\<not> truthy (apiKey_of \<lparr>pathname = ''/mcp'', searchParams = [], req_headers = []\<rparr>
             \<lparr>ITERABLE_API_KEY = None, ITERABLE_API_BASE_URL = None,
               ITERABLE_USER_PII = ''false'', ITERABLE_ENABLE_WRITES = ''false'',
               ITERABLE_ENABLE_SENDS = ''false'', MCP_OBJECT = ()\<rparr>)"
    by (simp add: apiKey_of_def js_or_def searchParams_get_def headers_get_def)
  have q: "apiKey_of \<lparr>pathname = ''/mcp'', searchParams = [(''api_key'', ''Q'')],
                       req_headers = []\<rparr>
             \<lparr>ITERABLE_API_KEY = None, ITERABLE_API_BASE_URL = None,
               ITERABLE_USER_PII = ''false'', ITERABLE_ENABLE_WRITES = ''false'',
               ITERABLE_ENABLE_SENDS = ''false'', MCP_OBJECT = ()\<rparr> = Some ''Q''"
    by (simp add: apiKey_of_def js_or_def searchParams_get_def)
  have f: "worker_fetch \<lparr>pathname = ''/mcp'', searchParams = [(''api_key'', ''Q'')],
                    req_headers = []\<rparr>
             \<lparr>ITERABLE_API_KEY = None, ITERABLE_API_BASE_URL = None,
               ITERABLE_USER_PII = ''false'', ITERABLE_ENABLE_WRITES = ''false'',
               ITERABLE_ENABLE_SENDS = ''false'', MCP_OBJECT = ()\<rparr>
       = ServeMcp \<lparr>ITERABLE_API_KEY = Some ''Q'', ITERABLE_API_BASE_URL = None,
               ITERABLE_USER_PII = ''false'', ITERABLE_ENABLE_WRITES = ''false'',
               ITERABLE_ENABLE_SENDS = ''false'', MCP_OBJECT = ()\<rparr>"
    by (simp add: worker_fetch_def q)
  from k q f
    worker_fetch_requires_key
      [of "\<lparr>pathname = ''/mcp'', searchParams = [], req_headers = []\<rparr>"
          "\<lparr>ITERABLE_API_KEY = None, ITERABLE_API_BASE_URL = None,
               ITERABLE_USER_PII = ''false'', ITERABLE_ENABLE_WRITES = ''false'',
               ITERABLE_ENABLE_SENDS = ''false'', MCP_OBJECT = ()\<rparr>"]
    worker_fetch_requires_key
      [of "\<lparr>pathname = ''/mcp'', searchParams = [(''api_key'', ''Q'')], req_headers = []\<rparr>"
          "\<lparr>ITERABLE_API_KEY = None, ITERABLE_API_BASE_URL = None,
               ITERABLE_USER_PII = ''false'', ITERABLE_ENABLE_WRITES = ''false'',
               ITERABLE_ENABLE_SENDS = ''false'', MCP_OBJECT = ()\<rparr>"]
  show ?thesis by simp
qed

section \<open>Properties of the client\<close>

subsection \<open>The platform functions on the response bodies of the properties\<close>

lemma JSON_parse_1234: "JSON_parse ''1234'' = Some (JNumber 1234 0)"
  by code_simp

lemma parseInt_1234: "parseInt (JNumber 1234 0) = Integer 1234"
  by code_simp

lemma JSON_parse_emails: "JSON_parse ''a@x.com\<newline>b@x.com\<newline>\<newline>'' = None"
  by code_simp

lemma emails_lines:
  "filter (\<lambda>email. trim email \<noteq> [])
     (js_split (CHR 0x0A) (trim ''a@x.com\<newline>b@x.com\<newline>\<newline>''))
   = [''a@x.com'', ''b@x.com'']"
  by code_simp

lemma trim_emails: "trim ''a@x.com'' = ''a@x.com''" "trim ''b@x.com'' = ''b@x.com''"
  by code_simp+

lemma JSON_parse_campaigns:
  \<open>JSON_parse ''{"campaigns":[]}'' = Some (JObject [(''campaigns'', JArray [])])\<close>
  by code_simp

lemma Number_toString_small:
  "Number_toString (Safe 1) = ''1''" "Number_toString (Safe 2) = ''2''"
  "Number_toString (Safe 3) = ''3''" "Number_toString (Safe 20) = ''20''"
  by code_simp+

lemma urlencode_keys:
  "urlencode ''page'' = ''page''" "urlencode ''pageSize'' = ''pageSize''"
  "urlencode ''sort'' = ''sort''"
  by code_simp+

lemma encode_pair_campaignIds:
  "encode_pair (''campaignIds'', ''1'') = ''campaignIds=1''"
  "encode_pair (''campaignIds'', ''2'') = ''campaignIds=2''"
  "encode_pair (''campaignIds'', ''3'') = ''campaignIds=3''"
  by code_simp+

subsection \<open>Joining and percent-encoding\<close>

lemma join_append_single: "xs \<noteq> [] \<Longrightarrow> join sep (xs @ [y]) = join sep xs @ sep @ y"
  by (induction sep xs rule: join.induct) auto

lemma params_searchParams_foldl:
  "foldl (\<lambda>searchParams entry.
              case snd entry of
                None \<Rightarrow> searchParams
              | Some v \<Rightarrow> searchParams_append searchParams (fst entry) (String_param v))
           acc ps
   = acc @ concat (map (\<lambda>entry. case snd entry of None \<Rightarrow> []
                                 | Some v \<Rightarrow> [(fst entry, String_param v)]) ps)"
  by (induction ps arbitrary: acc)
     (auto simp add: searchParams_append_def split: option.splits)

lemma params_searchParams_eq:
  "params_searchParams ps
   = concat (map (\<lambda>entry. case snd entry of None \<Rightarrow> []
                           | Some v \<Rightarrow> [(fst entry, String_param v)]) ps)"
  by (simp add: params_searchParams_def params_searchParams_foldl)

lemma params_searchParams_undefined:
  "params_searchParams (ps @ (k, None) # qs) = params_searchParams (ps @ qs)"
  by (simp add: params_searchParams_eq)

lemma of_char_digit_char: "d < 10 \<Longrightarrow> (of_char (digit_char d) :: nat) = 48 + d"
  by (simp add: digit_char_def)

lemma encode_digit_char:
  assumes "d < 10"
  shows "encode_byte (digit_char d) = [digit_char d]"
proof -
  have v: "(of_char (digit_char d) :: nat) = 48 + d"
    using assms by (rule of_char_digit_char)
  have "digit_char d \<noteq> CHR 0x20"
  proof
    assume "digit_char d = CHR 0x20"
    then have "(of_char (digit_char d) :: nat) = of_char (CHR 0x20)" by simp
    with v show False by simp
  qed
  moreover have "unreserved (digit_char d)"
    using assms by (simp add: unreserved_def Let_def v)
  ultimately show ?thesis by (simp add: encode_byte_def)
qed

lemma urlencode_nat_digits: "urlencode (nat_digits n) = nat_digits n"
proof (induction n rule: nat_digits.induct)
  case (1 n)
  show ?case
  proof (cases "n < 10")
    case True
    then show ?thesis
      by (simp add: nat_digits.simps [of n] urlencode_def encode_digit_char)
  next
    case False
    with 1 show ?thesis
      by (simp add: nat_digits.simps [of n] urlencode_def encode_digit_char)
  qed
qed

lemma encode_minus: "encode_byte (CHR ''-'') = ''-''"
  by code_simp

lemma urlencode_decimal: "urlencode (decimal n) = decimal n"
  using urlencode_nat_digits
  by (simp add: decimal_def urlencode_def encode_minus)

lemma urlencode_Number_toString_Safe:
  "urlencode (Number_toString (Safe w)) = decimal (sint w)"
  by (simp add: Number_toString_def urlencode_decimal)

subsection \<open>Error classification\<close>

text \<open>
  C7: in \<open>request\<close>, a response that is not ok and has status 404 raises an
  \<open>IterableApiError\<close> with status 404, the status text of the response and its
  body text; an exception thrown by \<open>fetch\<close>, or by reading the body of a
  response that is ok, is raised again as an \<open>IterableApiError\<close> with status 0
  and status text \<open>Network Error\<close>, its body being the message of the
  exception; and the \<open>IterableApiError\<close> raised for any response that is not
  ok reaches the caller as it was raised, with the status of the response.
\<close>

theorem request_error_classification:
  "(fetch (fetch_request client method path options) = Inr response
      \<and> \<not> ok response \<and> resp_status response = 404 \<and> resp_text response = Inr t
      \<longrightarrow> request fetch client method path options
            = Inl \<lparr>status = 404, statusText = resp_statusText response, body = t\<rparr>)
   \<and> (fetch (fetch_request client method path options) = Inl e
      \<longrightarrow> request fetch client method path options
            = Inl \<lparr>status = 0, statusText = ''Network Error'',
                   body = (case e of Error_object message \<Rightarrow> message | Other_value s \<Rightarrow> s)\<rparr>)
   \<and> (fetch (fetch_request client method path options) = Inr response
      \<and> ok response \<and> resp_text response = Inl e
      \<longrightarrow> request fetch client method path options
            = Inl \<lparr>status = 0, statusText = ''Network Error'',
                   body = (case e of Error_object message \<Rightarrow> message | Other_value s \<Rightarrow> s)\<rparr>)
   \<and> (fetch (fetch_request client method path options) = Inr response \<and> \<not> ok response
      \<longrightarrow> handle_outcome (fetch (fetch_request client method path options))
            = Inl (Thrown_api \<lparr>status = resp_status response,
                                statusText = resp_statusText response,
                                body = (case resp_text response of Inl _ \<Rightarrow> [] | Inr b \<Rightarrow> b)\<rparr>)
          \<and> request fetch client method path options
            = Inl \<lparr>status = resp_status response,
                   statusText = resp_statusText response,
                   body = (case resp_text response of Inl _ \<Rightarrow> [] | Inr b \<Rightarrow> b)\<rparr>)"
  by (simp add: request_def catch_block_def handle_outcome_def)

theorem request_error_classification_witness:
  "request (\<lambda>_. Inr \<lparr>ok = False, resp_status = 404, resp_statusText = ''Not Found'',
                      resp_text = Inr ''no such list''\<rparr>)
     \<lparr>apiKey = ''key'', baseUrl = ''https://api.iterable.com''\<rparr> ''GET'' ''/api/lists'' None
     = Inl \<lparr>status = 404, statusText = ''Not Found'', body = ''no such list''\<rparr>
   \<and> request (\<lambda>_. Inl (Error_object ''getaddrinfo ENOTFOUND''))
     \<lparr>apiKey = ''key'', baseUrl = ''https://api.iterable.com''\<rparr> ''GET'' ''/api/lists'' None
     = Inl \<lparr>status = 0, statusText = ''Network Error'', body = ''getaddrinfo ENOTFOUND''\<rparr>"
  using request_error_classification
    [of "\<lambda>_. Inr \<lparr>ok = False, resp_status = 404, resp_statusText = ''Not Found'',
                      resp_text = Inr ''no such list''\<rparr>"
        "\<lparr>apiKey = ''key'', baseUrl = ''https://api.iterable.com''\<rparr>" "''GET''" "''/api/lists''"
        None
        "\<lparr>ok = False, resp_status = 404, resp_statusText = ''Not Found'',
                      resp_text = Inr ''no such list''\<rparr>"
        "''no such list''" "Error_object ''getaddrinfo ENOTFOUND''"]
    request_error_classification
    [of "\<lambda>_. Inl (Error_object ''getaddrinfo ENOTFOUND'')"
        "\<lparr>apiKey = ''key'', baseUrl = ''https://api.iterable.com''\<rparr>" "''GET''" "''/api/lists''"
        None
        "\<lparr>ok = False, resp_status = 404, resp_statusText = ''Not Found'',
                      resp_text = Inr ''no such list''\<rparr>"
        "''no such list''" "Error_object ''getaddrinfo ENOTFOUND''"]
  by simp

subsection \<open>Response normalization\<close>

text \<open>
  C8: for a response that is ok, the body \<open>1234\<close> makes \<open>getListSize\<close> return
  the size 1234; the body of two addresses, each followed by a line feed, and a
  blank line makes \<open>getListUsers\<close> return the two addresses as users, the
  blank line dropped; an empty body makes \<open>request\<close> return the empty object;
  and the body \<open>{"campaigns":[]}\<close> makes it return the object with the one
  member \<open>campaigns\<close>, an empty array.
\<close>

theorem response_normalization:
  \<open>(fetch (fetch_request client ''GET'' (''/api/lists/'' @ Number_toString n @ ''/size'') None)
        = Inr response
      \<and> ok response \<and> resp_text response = Inr ''1234''
      \<longrightarrow> getListSize fetch client n = Inr \<lparr>size_field = Integer 1234\<rparr>)
   \<and> (fetch (fetch_request client ''GET'' ''/api/lists/getUsers''
               (Some \<lparr>opt_body = None,
                      opt_params = Some
                        [(''listId'', Some (PNumber (listId params))),
                         (''maxResults'', map_option PNumber (maxResults params))]\<rparr>))
        = Inr response
      \<and> ok response \<and> resp_text response = Inr ''a@x.com\<newline>b@x.com\<newline>\<newline>''
      \<longrightarrow> getListUsers fetch client params
            = Inr (JObject [(''users'', JArray [JObject [(''email'', JString ''a@x.com'')],
                                                JObject [(''email'', JString ''b@x.com'')]])]))
   \<and> (fetch (fetch_request client method path options) = Inr response
      \<and> ok response \<and> resp_text response = Inr []
      \<longrightarrow> request fetch client method path options = Inr (JObject []))
   \<and> (fetch (fetch_request client method path options) = Inr response
      \<and> ok response
      \<and> resp_text response = Inr ''{"campaigns":[]}''
      \<longrightarrow> request fetch client method path options
            = Inr (JObject [(''campaigns'', JArray [])]))\<close>
proof -
  have size: "getListSize fetch client n = Inr \<lparr>size_field = Integer 1234\<rparr>"
    if "fetch (fetch_request client ''GET'' (''/api/lists/'' @ Number_toString n @ ''/size'') None)
          = Inr response" "ok response" "resp_text response = Inr ''1234''"
    using that
    by (simp add: getListSize_def request_def catch_block_def handle_outcome_def
        JSON_parse_1234 parseInt_1234)
  have users: "getListUsers fetch client params
            = Inr (JObject [(''users'', JArray [JObject [(''email'', JString ''a@x.com'')],
                                                JObject [(''email'', JString ''b@x.com'')]])])"
    if "fetch (fetch_request client ''GET'' ''/api/lists/getUsers''
               (Some \<lparr>opt_body = None,
                      opt_params = Some
                        [(''listId'', Some (PNumber (listId params))),
                         (''maxResults'', map_option PNumber (maxResults params))]\<rparr>))
          = Inr response" "ok response"
       "resp_text response = Inr ''a@x.com\<newline>b@x.com\<newline>\<newline>''"
    using that
    by (simp add: getListUsers_def request_def catch_block_def handle_outcome_def
        JSON_parse_emails emails_lines trim_emails)
  have empty: "request fetch client method path options = Inr (JObject [])"
    if "fetch (fetch_request client method path options) = Inr response"
       "ok response" "resp_text response = Inr []"
    using that by (simp add: request_def catch_block_def handle_outcome_def)
  have campaigns: "request fetch client method path options
            = Inr (JObject [(''campaigns'', JArray [])])"
    if "fetch (fetch_request client method path options) = Inr response"
       "ok response"
       \<open>resp_text response = Inr ''{"campaigns":[]}''\<close>
    using that JSON_parse_campaigns
    by (simp add: request_def catch_block_def handle_outcome_def)
  from size users empty campaigns show ?thesis by blast
qed

theorem response_normalization_witness:
  "getListSize (\<lambda>_. Inr \<lparr>ok = True, resp_status = 200, resp_statusText = ''OK'',
                           resp_text = Inr ''1234''\<rparr>)
     \<lparr>apiKey = ''key'', baseUrl = ''https://api.iterable.com''\<rparr> (Safe 1)
     = Inr \<lparr>size_field = Integer 1234\<rparr>
   \<and> getListUsers (\<lambda>_. Inr \<lparr>ok = True, resp_status = 200, resp_statusText = ''OK'',
                           resp_text = Inr ''a@x.com\<newline>b@x.com\<newline>\<newline>''\<rparr>)
     \<lparr>apiKey = ''key'', baseUrl = ''https://api.iterable.com''\<rparr>
     \<lparr>listId = Safe 1, maxResults = None\<rparr>
     = Inr (JObject [(''users'', JArray [JObject [(''email'', JString ''a@x.com'')],
                                         JObject [(''email'', JString ''b@x.com'')]])])"
  using response_normalization
    [of "\<lambda>_. Inr \<lparr>ok = True, resp_status = 200, resp_statusText = ''OK'',
                           resp_text = Inr ''1234''\<rparr>"
        "\<lparr>apiKey = ''key'', baseUrl = ''https://api.iterable.com''\<rparr>" "Safe 1"
        "\<lparr>ok = True, resp_status = 200, resp_statusText = ''OK'', resp_text = Inr ''1234''\<rparr>"
        "\<lparr>listId = Safe 1, maxResults = None\<rparr>" "''GET''" "''/x''" None]
    response_normalization
    [of "\<lambda>_. Inr \<lparr>ok = True, resp_status = 200, resp_statusText = ''OK'',
                           resp_text = Inr ''a@x.com\<newline>b@x.com\<newline>\<newline>''\<rparr>"
        "\<lparr>apiKey = ''key'', baseUrl = ''https://api.iterable.com''\<rparr>" "Safe 1"
        "\<lparr>ok = True, resp_status = 200, resp_statusText = ''OK'',
                           resp_text = Inr ''a@x.com\<newline>b@x.com\<newline>\<newline>''\<rparr>"
        "\<lparr>listId = Safe 1, maxResults = None\<rparr>" "''GET''" "''/x''" None]
  by simp

subsection \<open>Query strings\<close>

lemma join_snoc_nonempty: "y \<noteq> [] \<Longrightarrow> join sep (xs @ [y]) \<noteq> []"
  by (cases "xs = []") (simp_all add: join_append_single)

lemma of_char_hex_digit:
  "d < 16 \<Longrightarrow> (of_char (hex_digit d) :: nat) = (if d < 10 then 48 + d else 55 + d)"
  by (simp add: hex_digit_def)

lemma hex_digit_not_comma:
  assumes "d < 16"
  shows "hex_digit d \<noteq> CHR '',''"
proof
  assume "hex_digit d = CHR '',''"
  then have "(of_char (hex_digit d) :: nat) = of_char (CHR '','')" by simp
  with assms show False by (simp add: of_char_hex_digit split: if_splits)
qed

lemma encode_byte_no_comma: "CHR '','' \<notin> set (encode_byte c)"
proof -
  have "(of_char c :: nat) < 256" by simp
  then have "(of_char c :: nat) div 16 < 16" "(of_char c :: nat) mod 16 < 16"
    by arith+
  then have "hex_digit ((of_char c :: nat) div 16) \<noteq> CHR '',''"
    and "hex_digit ((of_char c :: nat) mod 16) \<noteq> CHR '',''"
    by (simp_all add: hex_digit_not_comma)
  moreover have "c \<noteq> CHR '',''" if "unreserved c"
  proof
    assume "c = CHR '',''"
    with that show False by (simp add: unreserved_def)
  qed
  ultimately show ?thesis
    by (auto simp add: encode_byte_def)
qed

lemma urlencode_no_comma: "CHR '','' \<notin> set (urlencode s)"
  by (simp add: urlencode_def encode_byte_no_comma)

lemma join_no_comma:
  "CHR '','' \<notin> set sep \<Longrightarrow> (\<And>x. x \<in> set xs \<Longrightarrow> CHR '','' \<notin> set x)
     \<Longrightarrow> CHR '','' \<notin> set (join sep xs)"
  by (induction sep xs rule: join.induct) auto

lemma toString_no_comma: "CHR '','' \<notin> set (toString sp)"
  unfolding toString_def
  by (rule join_no_comma) (auto simp add: encode_pair_def urlencode_no_comma)

text \<open>
  C9: for \<open>getSentMessages\<close> with the campaign identifiers 1, 2 and 3, the
  pairs of the query are the defined scalar parameters followed by the three
  pairs \<open>campaignIds=1\<close>, \<open>campaignIds=2\<close> and \<open>campaignIds=3\<close>, and the URL
  given to \<open>fetch\<close> is the base URL, the path, a question mark and these
  pairs joined by \<open>&\<close>; a query string written by \<open>URLSearchParams\<close> contains
  no comma. For every request, a parameter whose value is undefined changes
  neither the pairs nor the URL: they are those of the request without that
  parameter.
\<close>

theorem query_parameter_serialization:
  "(campaignIds params = Some [Safe 1, Safe 2, Safe 3] \<longrightarrow>
      sentMessages_searchParams params
        = params_searchParams (sentMessages_queryParams params)
          @ [(''campaignIds'', ''1''), (''campaignIds'', ''2''), (''campaignIds'', ''3'')]
      \<and> getSentMessages fetch client params
        = catch_block (handle_outcome (fetch
            \<lparr>fr_url = baseUrl client @ ''/api/users/getSentMessages?'' @
                 join ''&''
                   (map encode_pair (params_searchParams (sentMessages_queryParams params))
                    @ [''campaignIds=1'', ''campaignIds=2'', ''campaignIds=3'']),
             fr_method = ''GET'',
             fr_headers = [(''Api-Key'', apiKey client),
                           (''Content-Type'', ''application/json''),
                           (''User-Agent'', ''iterable-mcp-cloudflare/1.0.0'')],
             fr_body = None\<rparr>)))
   \<and> CHR '','' \<notin> set (toString (sentMessages_searchParams params))
   \<and> params_searchParams (ps @ (k, None) # qs) = params_searchParams (ps @ qs)
   \<and> request_url client path (Some \<lparr>opt_body = b, opt_params = Some (ps @ (k, None) # qs)\<rparr>)
       = request_url client path (Some \<lparr>opt_body = b, opt_params = Some (ps @ qs)\<rparr>)"
proof -
  have pairs: "sentMessages_searchParams params
        = params_searchParams (sentMessages_queryParams params)
          @ [(''campaignIds'', ''1''), (''campaignIds'', ''2''), (''campaignIds'', ''3'')]"
    if "campaignIds params = Some [Safe 1, Safe 2, Safe 3]"
    using that
    by (simp add: sentMessages_searchParams_def searchParams_append_def Number_toString_small)
  have query: "toString (sentMessages_searchParams params)
        = join ''&''
            (map encode_pair (params_searchParams (sentMessages_queryParams params))
             @ [''campaignIds=1'', ''campaignIds=2'', ''campaignIds=3''])"
    if "campaignIds params = Some [Safe 1, Safe 2, Safe 3]"
    by (simp add: pairs [OF that] toString_def encode_pair_campaignIds)
  have nonempty: "join ''&''
            (map encode_pair (params_searchParams (sentMessages_queryParams params))
             @ [''campaignIds=1'', ''campaignIds=2'', ''campaignIds=3'']) \<noteq> []"
    using join_snoc_nonempty
      [of "''campaignIds=3''" "''&''"
          "map encode_pair (params_searchParams (sentMessages_queryParams params))
             @ [''campaignIds=1'', ''campaignIds=2'']"]
    by simp
  have sent: "getSentMessages fetch client params
        = catch_block (handle_outcome (fetch
            \<lparr>fr_url = baseUrl client @ ''/api/users/getSentMessages?'' @
                 join ''&''
                   (map encode_pair (params_searchParams (sentMessages_queryParams params))
                    @ [''campaignIds=1'', ''campaignIds=2'', ''campaignIds=3'']),
             fr_method = ''GET'',
             fr_headers = [(''Api-Key'', apiKey client),
                           (''Content-Type'', ''application/json''),
                           (''User-Agent'', ''iterable-mcp-cloudflare/1.0.0'')],
             fr_body = None\<rparr>))"
    if "campaignIds params = Some [Safe 1, Safe 2, Safe 3]"
    using nonempty
    by (simp add: getSentMessages_def request_def fetch_request_def request_url_def
        sentMessages_path_def query [OF that] del: join.simps)
  have url: "request_url client path
               (Some \<lparr>opt_body = b, opt_params = Some (ps @ (k, None) # qs)\<rparr>)
       = request_url client path (Some \<lparr>opt_body = b, opt_params = Some (ps @ qs)\<rparr>)"
    by (simp add: request_url_def params_searchParams_undefined)
  from pairs sent url show ?thesis
    by (simp add: toString_no_comma params_searchParams_undefined)
qed

theorem query_parameter_serialization_witness:
  "getSentMessages
     (\<lambda>r. Inr \<lparr>ok = False, resp_status = 404, resp_statusText = ''Not Found'',
               resp_text = Inr (fr_url r)\<rparr>)
     \<lparr>apiKey = ''key'', baseUrl = ''https://api.iterable.com''\<rparr>
     \<lparr>email = None, userId = None, limit = None, campaignIds = Some [Safe 1, Safe 2, Safe 3],
      startDateTime = None, endDateTime = None, messageMedium = None\<rparr>
   = Inl \<lparr>status = 404, statusText = ''Not Found'',
          body = ''https://api.iterable.com/api/users/getSentMessages?campaignIds=1&campaignIds=2&campaignIds=3''\<rparr>"
  using query_parameter_serialization
    [of "\<lparr>email = None, userId = None, limit = None, campaignIds = Some [Safe 1, Safe 2, Safe 3],
          startDateTime = None, endDateTime = None, messageMedium = None\<rparr>"
        "\<lambda>r. Inr \<lparr>ok = False, resp_status = 404, resp_statusText = ''Not Found'',
               resp_text = Inr (fr_url r)\<rparr>"
        "\<lparr>apiKey = ''key'', baseUrl = ''https://api.iterable.com''\<rparr>"]
  by (simp add: catch_block_def handle_outcome_def params_searchParams_eq
      sentMessages_queryParams_def)

lemma urlencode_defaults: "urlencode ''1'' = ''1''" "urlencode ''20'' = ''20''"
  by code_simp+

text \<open>
  C10: the URL that \<open>getCampaigns\<close> gives to \<open>fetch\<close> has the query
  \<open>page=\<close>, then 1 when the page is omitted and otherwise what \<open>String\<close>
  prints for the given page, percent-encoded; \<open>&pageSize=\<close>, then 20 when
  the page size is omitted and otherwise what \<open>String\<close> prints for the given
  page size, percent-encoded; and then, when a sort field is given, \<open>&sort=\<close>
  and the encoded field. For a given page or page size that is an integer from
  \<open>-2^53\<close> to \<open>2^53 - 1\<close>, what appears is its decimal digits.
\<close>

theorem getCampaigns_default_pagination:
  "getCampaigns fetch client params
   = catch_block (handle_outcome (fetch
       \<lparr>fr_url = baseUrl client @ ''/api/campaigns?page='' @
            (case (case params of None \<Rightarrow> None | Some p \<Rightarrow> page p) of
               None \<Rightarrow> ''1'' | Some n \<Rightarrow> urlencode (Number_toString n))
            @ ''&pageSize='' @
            (case (case params of None \<Rightarrow> None | Some p \<Rightarrow> pageSize p) of
               None \<Rightarrow> ''20'' | Some n \<Rightarrow> urlencode (Number_toString n))
            @ (case (case params of None \<Rightarrow> None | Some p \<Rightarrow> sort_field p) of
                 None \<Rightarrow> [] | Some s \<Rightarrow> ''&sort='' @ urlencode s),
        fr_method = ''GET'',
        fr_headers = [(''Api-Key'', apiKey client),
                      (''Content-Type'', ''application/json''),
                      (''User-Agent'', ''iterable-mcp-cloudflare/1.0.0'')],
        fr_body = None\<rparr>))
   \<and> urlencode (Number_toString (Safe w)) = decimal (sint w)"
  by (simp add: getCampaigns_def request_def fetch_request_def request_url_def
      params_searchParams_eq toString_def encode_pair_def String_param_def
      urlencode_keys urlencode_Number_toString_Safe Number_toString_small
      urlencode_defaults
      split: option.splits)

theorem getCampaigns_default_pagination_witness:
  "getCampaigns
     (\<lambda>r. Inr \<lparr>ok = False, resp_status = 404, resp_statusText = ''Not Found'',
               resp_text = Inr (fr_url r)\<rparr>)
     \<lparr>apiKey = ''key'', baseUrl = ''https://api.iterable.com''\<rparr> None
   = Inl \<lparr>status = 404, statusText = ''Not Found'',
          body = ''https://api.iterable.com/api/campaigns?page=1&pageSize=20''\<rparr>
   \<and> getCampaigns
     (\<lambda>r. Inr \<lparr>ok = False, resp_status = 404, resp_statusText = ''Not Found'',
               resp_text = Inr (fr_url r)\<rparr>)
     \<lparr>apiKey = ''key'', baseUrl = ''https://api.iterable.com''\<rparr>
     (Some \<lparr>page = Some (Safe 3), pageSize = None, sort_field = None\<rparr>)
   = Inl \<lparr>status = 404, statusText = ''Not Found'',
          body = ''https://api.iterable.com/api/campaigns?page=3&pageSize=20''\<rparr>
   \<and> getCampaigns
     (\<lambda>r. Inr \<lparr>ok = False, resp_status = 404, resp_statusText = ''Not Found'',
               resp_text = Inr (fr_url r)\<rparr>)
     \<lparr>apiKey = ''key'', baseUrl = ''https://api.iterable.com''\<rparr>
     (Some \<lparr>page = Some (Other ''1e+21''), pageSize = Some (Safe 50), sort_field = None\<rparr>)
   = Inl \<lparr>status = 404, statusText = ''Not Found'',
          body = ''https://api.iterable.com/api/campaigns?page=1e%2B21&pageSize=50''\<rparr>"
proof -
  have e: "urlencode ''1e+21'' = ''1e%2B21''"
    by code_simp
  have d: "decimal 3 = ''3''" "decimal 50 = ''50''"
    by code_simp+
  show ?thesis
    using getCampaigns_default_pagination
      [of "\<lambda>r. Inr \<lparr>ok = False, resp_status = 404, resp_statusText = ''Not Found'',
                 resp_text = Inr (fr_url r)\<rparr>"
          "\<lparr>apiKey = ''key'', baseUrl = ''https://api.iterable.com''\<rparr>" None 3]
      getCampaigns_default_pagination
      [of "\<lambda>r. Inr \<lparr>ok = False, resp_status = 404, resp_statusText = ''Not Found'',
                 resp_text = Inr (fr_url r)\<rparr>"
          "\<lparr>apiKey = ''key'', baseUrl = ''https://api.iterable.com''\<rparr>"
          "Some \<lparr>page = Some (Safe 3), pageSize = None, sort_field = None\<rparr>" 3]
      getCampaigns_default_pagination
      [of "\<lambda>r. Inr \<lparr>ok = False, resp_status = 404, resp_statusText = ''Not Found'',
                 resp_text = Inr (fr_url r)\<rparr>"
          "\<lparr>apiKey = ''key'', baseUrl = ''https://api.iterable.com''\<rparr>"
          "Some \<lparr>page = Some (Other ''1e+21''), pageSize = Some (Safe 50),
                 sort_field = None\<rparr>" 50]
    by (simp add: catch_block_def handle_outcome_def Number_toString_def urlencode_decimal e d)
qed

end
